theory Spec2Isabelle
  imports Complex_Main "HOL-Library.Sublist" "HOL-Library.Multiset"
begin

section \<open>The appointment table\<close>

text \<open>
  The program is a dashboard script over one pandas table \<open>df\<close>. A row of the table is the
  dictionary built in \<open>load_data\<close> (lines 35 to 51), modelled as a record with the same
  fifteen keys (\<open>No-show\<close> is written \<open>No_show\<close>). Python integers are \<open>int\<close>.
  A \<open>datetime\<close> is the number of microseconds on its timeline and \<open>timedelta(days=n)\<close>
  is \<open>n\<close> days of microseconds; the range check of \<open>datetime\<close> (years 1 to 9999) is not
  modelled, the clock being the present. Strings are lists of code points below 256,
  which covers every identifier and neighbourhood name of the program.
\<close>

record row =
  PatientId :: string
  AppointmentID :: string
  Gender :: string
  ScheduledDay :: int
  AppointmentDay :: int
  Age :: int
  Neighbourhood :: string
  Scholarship :: int
  Hipertension :: int
  Diabetes :: int
  Alcoholism :: int
  Handcap :: int
  SMS_received :: int
  No_show :: string
  LeadDays :: int

text \<open>
  A \<open>DataFrame\<close> has column labels and rows. Selecting a column that the frame does not
  have raises \<open>KeyError\<close>; a frame built from an empty list has no columns at all.
\<close>

record dataframe =
  columns :: "string list"
  rows :: "row list"

datatype error = ZeroDivisionError | KeyError string

definition row_keys :: "string list" where
  "row_keys = [''PatientId'', ''AppointmentID'', ''Gender'', ''ScheduledDay'',
     ''AppointmentDay'', ''Age'', ''Neighbourhood'', ''Scholarship'', ''Hipertension'',
     ''Diabetes'', ''Alcoholism'', ''Handcap'', ''SMS_received'', ''No-show'', ''LeadDays'']"

text \<open>\<open>pd.DataFrame(data)\<close> for a list of dictionaries that all have the keys \<open>row_keys\<close>.\<close>

definition DataFrame :: "row list \<Rightarrow> dataframe" where
  "DataFrame data = \<lparr>columns = (if data = [] then [] else row_keys), rows = data\<rparr>"

text \<open>A cohort is a frame that carries the fifteen columns, with any number of rows.\<close>

definition is_cohort :: "dataframe \<Rightarrow> bool" where
  "is_cohort df = (columns df = row_keys)"

definition len :: "dataframe \<Rightarrow> int" where
  "len df = int (length (rows df))"

text \<open>
  \<open>df[mask]\<close>, selection by a boolean series: the rows whose mask entry is true, in the
  order of the frame, under the same columns.
\<close>

definition select_rows :: "dataframe \<Rightarrow> bool list \<Rightarrow> dataframe" where
  "select_rows df bs = df\<lparr>rows := map fst (filter snd (zip (rows df) bs))\<rparr>"

text \<open>The elementwise \<open>&\<close> and \<open>|\<close> of two boolean series.\<close>

definition series_and :: "bool list \<Rightarrow> bool list \<Rightarrow> bool list" where
  "series_and a b = map (\<lambda>(x, y). x \<and> y) (zip a b)"

definition series_or :: "bool list \<Rightarrow> bool list \<Rightarrow> bool list" where
  "series_or a b = map (\<lambda>(x, y). x \<or> y) (zip a b)"

section \<open>The generator \<open>load_data\<close>\<close>

text \<open>
  The generator reads two things from outside: numpy's global random source and the
  clock. Both are inputs of the model: \<open>entropy e k\<close> is the raw value behind the
  \<open>k\<close>-th draw and \<open>clock e i\<close> the value of \<open>datetime.now()\<close> in iteration \<open>i\<close>.
  \<open>np.random.randint(low, high)\<close> yields an integer of the half-open range from \<open>low\<close>
  up to but excluding \<open>high\<close>, and \<open>np.random.choice(xs, p)\<close> an element of \<open>xs\<close>
  (every weight in the program is positive, so every element can come out; the weights
  themselves are not modelled). Each draw advances the position in the source by one.
  numpy raises \<open>ValueError\<close> for \<open>randint\<close> with \<open>low\<close> not below \<open>high\<close> and for \<open>choice\<close>
  from an empty list; the program calls both with constants only, a non-empty range or
  list each time, so neither error has a branch here. The decorator \<open>st.cache_data\<close>
  stores the result per argument and is left out: \<open>load_data\<close> is the function it wraps.
\<close>

record env =
  entropy :: "nat \<Rightarrow> nat"
  clock :: "nat \<Rightarrow> int"

definition randint :: "int \<Rightarrow> int \<Rightarrow> env \<Rightarrow> nat \<Rightarrow> int \<times> nat" where
  "randint low high e k = (low + int (entropy e k mod nat (high - low)), Suc k)"

definition choice :: "'a list \<Rightarrow> env \<Rightarrow> nat \<Rightarrow> 'a \<times> nat" where
  "choice xs e k = (xs ! (entropy e k mod length xs), Suc k)"

definition timedelta :: "int \<Rightarrow> int" where
  "timedelta days = days * 86400000000"

text \<open>The decimal text of a natural number, as an f-string renders \<open>10000 + i\<close>.\<close>

definition digit :: "nat \<Rightarrow> char" where
  "digit d = ''0123456789'' ! d"

function str_nat :: "nat \<Rightarrow> string" where
  "str_nat n = (if n < 10 then [digit n] else str_nat (n div 10) @ [digit (n mod 10)])"
  by pat_completeness auto
termination
  by (relation "measure id") auto

declare str_nat.simps [simp del]

definition neighbourhoods :: "string list" where
  "neighbourhoods = [''JARDIM DA PENHA'', ''MATA DA PRAIA'', ''PONTAL DE CAMBURI'',
     ''JARDIM CAMBURI'', ''RESIST'' @ [CHR 0xCA] @ ''NCIA'']"

text \<open>
  One pass of the loop body (lines 23 to 51) for index \<open>i\<close>, starting at position \<open>k\<close> of
  the random source: the row, and the position after its twelve draws. The draws are in
  the order in which Python evaluates them, the dictionary's values from top to bottom.
\<close>

definition gen_row :: "env \<Rightarrow> nat \<Rightarrow> nat \<Rightarrow> row \<times> nat" where
  "gen_row e i k =
     (let (is_no_show, k) = choice [''Yes'', ''No''] e k;
          (has_sms, k) = choice [0, 1] e k;
          (age, k) = randint 5 85 e k;
          (back, k) = randint 1 30 e k;
          scheduled_date = clock e i - timedelta back;
          (lead_days, k) = randint 0 15 e k;
          appointment_date = scheduled_date + timedelta lead_days;
          (diabetes, k) = choice [0, 1] e k;
          (hipertension, k) = choice [0, 1] e k;
          (gender, k) = choice [''F'', ''M''] e k;
          (neighbourhood, k) = choice neighbourhoods e k;
          (scholarship, k) = choice [0, 1] e k;
          (alcoholism, k) = choice [0, 1] e k;
          (handcap, k) = choice [0, 1] e k
      in (\<lparr>PatientId = ''P-'' @ str_nat (10000 + i),
           AppointmentID = ''APT-'' @ str_nat (50000 + i),
           Gender = gender,
           ScheduledDay = scheduled_date,
           AppointmentDay = appointment_date,
           Age = age,
           Neighbourhood = neighbourhood,
           Scholarship = scholarship,
           Hipertension = hipertension,
           Diabetes = diabetes,
           Alcoholism = alcoholism,
           Handcap = handcap,
           SMS_received = has_sms,
           No_show = is_no_show,
           LeadDays = lead_days\<rparr>, k))"

text \<open>
  \<open>for i in range(count)\<close>: \<open>n\<close> iterations are left, \<open>i\<close> is the index, \<open>k\<close> the position
  in the random source and \<open>data\<close> the list built so far.
\<close>

fun load_loop :: "env \<Rightarrow> nat \<Rightarrow> nat \<Rightarrow> nat \<Rightarrow> row list \<Rightarrow> row list" where
  "load_loop e 0 i k data = data"
| "load_loop e (Suc n) i k data =
     (let (r, k') = gen_row e i k in load_loop e n (Suc i) k' (data @ [r]))"

text \<open>
  \<open>load_data(count)\<close>, the argument written \<open>cnt\<close>; \<open>range(cnt)\<close> is empty for a count of
  zero or less.
\<close>

definition load_data :: "env \<Rightarrow> int \<Rightarrow> dataframe" where
  "load_data e cnt = DataFrame (load_loop e (nat cnt) 0 0 [])"

section \<open>The figures of the dashboard\<close>

text \<open>
  \<open>df[name]\<close>: the values of one column, top to bottom, or \<open>KeyError\<close> when the frame has no
  column of that label. The record field that holds the column is passed along.
\<close>

definition column :: "dataframe \<Rightarrow> string \<Rightarrow> (row \<Rightarrow> 'a) \<Rightarrow> error + 'a list" where
  "column df name field =
     (if name \<in> set (columns df) then Inr (map field (rows df)) else Inl (KeyError name))"

text \<open>
  The rates are Python floats. Their arithmetic is not fixed here: \<open>fdiv\<close> is the true
  division of two integers with a divisor other than zero and \<open>fmul\<close> the product of a
  float and an integer, whatever the float type \<open>'f\<close> is. Python raises
  \<open>ZeroDivisionError\<close> when an integer is divided by the integer zero, before any float
  exists.
\<close>

record 'f floats =
  fdiv :: "int \<Rightarrow> int \<Rightarrow> 'f"
  fmul :: "'f \<Rightarrow> int \<Rightarrow> 'f"

definition truediv :: "'f floats \<Rightarrow> int \<Rightarrow> int \<Rightarrow> error + 'f" where
  "truediv ops a b = (if b = 0 then Inl ZeroDivisionError else Inr (fdiv ops a b))"

text \<open>Lines 94 and 95: \<open>df[df['No-show'] == 'Yes']\<close> and \<open>df[df['No-show'] == 'No']\<close>.\<close>

definition no_shows :: "dataframe \<Rightarrow> error + dataframe" where
  "no_shows df =
     (case column df ''No-show'' No_show of
        Inl err \<Rightarrow> Inl err
      | Inr c \<Rightarrow> Inr (select_rows df (map (\<lambda>v. v = ''Yes'') c)))"

definition shows_up :: "dataframe \<Rightarrow> error + dataframe" where
  "shows_up df =
     (case column df ''No-show'' No_show of
        Inl err \<Rightarrow> Inl err
      | Inr c \<Rightarrow> Inr (select_rows df (map (\<lambda>v. v = ''No'') c)))"

text \<open>Lines 93 to 96: \<open>rate = (len(no_shows) / total_apts) * 100\<close>.\<close>

definition rate :: "'f floats \<Rightarrow> dataframe \<Rightarrow> error + 'f" where
  "rate ops df =
     (let total_apts = len df in
      case no_shows df of
        Inl err \<Rightarrow> Inl err
      | Inr ns \<Rightarrow>
          (case shows_up df of
             Inl err \<Rightarrow> Inl err
           | Inr sh \<Rightarrow>
               (case truediv ops (len ns) total_apts of
                  Inl err \<Rightarrow> Inl err
                | Inr q \<Rightarrow> Inr (fmul ops q 100))))"





text \<open>Line 113: \<open>est_loss = len(no_shows) * 150\<close>.\<close>

definition est_loss :: "dataframe \<Rightarrow> error + int" where
  "est_loss df =
     (case no_shows df of Inl err \<Rightarrow> Inl err | Inr ns \<Rightarrow> Inr (len ns * 150))"

text \<open>Line 203: \<open>df[(df['No-show'] == 'Yes') & (df['LeadDays'] > 5)]\<close>.\<close>

definition high_risk :: "dataframe \<Rightarrow> error + dataframe" where
  "high_risk df =
     (case column df ''No-show'' No_show of
        Inl err \<Rightarrow> Inl err
      | Inr a \<Rightarrow>
          (case column df ''LeadDays'' LeadDays of
             Inl err \<Rightarrow> Inl err
           | Inr b \<Rightarrow>
               Inr (select_rows df
                      (series_and (map (\<lambda>v. v = ''Yes'') a) (map (\<lambda>d. 5 < d) b)))))"

section \<open>The search box\<close>

text \<open>
  \<open>Series.str.contains(pat, case=False)\<close> leaves \<open>regex\<close> at its default, which is true:
  the term is compiled as a regular expression with \<open>re.IGNORECASE\<close> and every cell is
  tried with \<open>search\<close>. The model covers the expressions made of ordinary characters and
  of the dot, which stands for any character but the newline. A term with another special
  character of the regular-expression syntax is outside the model: \<open>re_compile\<close> gives
  \<open>None\<close> for it and so does the search.
\<close>

datatype atom = Literal char | AnyChar

definition special_chars :: "char list" where
  "special_chars = ''.^$*+?{}[]|()'' @ [CHR 0x5C]"

fun re_compile :: "string \<Rightarrow> atom list option" where
  "re_compile [] = Some []"
| "re_compile (c # cs) =
     (case re_compile cs of
        None \<Rightarrow> None
      | Some p \<Rightarrow>
          if c = CHR ''.'' then Some (AnyChar # p)
          else if c \<in> set special_chars then None
          else Some (Literal c # p))"

text \<open>
  Lower case of a code point below 256, as \<open>str.lower\<close> has it: the letters A to Z and the
  capital letters from 192 to 222, the multiplication sign 215 among them left alone.
\<close>

definition lower :: "char \<Rightarrow> char" where
  "lower c =
     (let n = (of_char c :: nat) in
      if 65 \<le> n \<and> n \<le> 90 then char_of (n + 32)
      else if n = 215 then c
      else if 192 \<le> n \<and> n \<le> 222 then char_of (n + 32)
      else c)"

fun atom_matches :: "atom \<Rightarrow> char \<Rightarrow> bool" where
  "atom_matches (Literal l) c = (lower l = lower c)"
| "atom_matches AnyChar c = (c \<noteq> CHR 0x0A)"

text \<open>The expression matches at the start of the text.\<close>

fun match_here :: "atom list \<Rightarrow> string \<Rightarrow> bool" where
  "match_here [] s = True"
| "match_here (a # p) [] = False"
| "match_here (a # p) (c # s) = (atom_matches a c \<and> match_here p s)"

text \<open>\<open>search\<close>: the expression matches at some position of the text, tried left to right.\<close>

fun re_search :: "atom list \<Rightarrow> string \<Rightarrow> bool" where
  "re_search p [] = match_here p []"
| "re_search p (c # s) = (match_here p (c # s) \<or> re_search p s)"

text \<open>
  Lines 174 to 179. The empty term is falsy and leaves the copy of the frame as it is.
  The result is \<open>None\<close> where the term is outside the modelled expressions.
\<close>

definition display_df :: "dataframe \<Rightarrow> string \<Rightarrow> (error + dataframe) option" where
  "display_df df search_term =
     (if search_term = [] then Some (Inr df)
      else
        case column df ''PatientId'' PatientId of
          Inl err \<Rightarrow> Some (Inl err)
        | Inr ids \<Rightarrow>
            (case re_compile search_term of
               None \<Rightarrow> None
             | Some p \<Rightarrow>
                 (case column df ''Neighbourhood'' Neighbourhood of
                    Inl err \<Rightarrow> Some (Inl err)
                  | Inr nbs \<Rightarrow>
                      Some (Inr (select_rows df
                                   (series_or (map (re_search p) ids) (map (re_search p) nbs)))))))"

section \<open>What the specification says, for comparison\<close>

text \<open>
  The specification's \<open>revenueLoss(cohort, unitValue)\<close>: the number of rows with
  \<open>noShow = Yes\<close> times the unit value.
\<close>

definition revenueLoss_spec :: "row list \<Rightarrow> int \<Rightarrow> int" where
  "revenueLoss_spec cohort unitValue =
     int (length (filter (\<lambda>r. No_show r = ''Yes'') cohort)) * unitValue"

text \<open>
  The specification's \<open>search(cohort, term)\<close>: the rows whose patient identifier or
  neighbourhood contains the term as a contiguous piece, letter case set aside.
\<close>

definition contains_ci :: "string \<Rightarrow> string \<Rightarrow> bool" where
  "contains_ci needle s = sublist (map lower needle) (map lower s)"

definition search_spec :: "row list \<Rightarrow> string \<Rightarrow> row list" where
  "search_spec cohort needle =
     filter (\<lambda>r. contains_ci needle (PatientId r) \<or> contains_ci needle (Neighbourhood r)) cohort"

text \<open>The specification's \<open>highRiskQueue\<close> condition at the threshold 5.\<close>

definition is_high_risk :: "row \<Rightarrow> bool" where
  "is_high_risk r = (No_show r = ''Yes'' \<and> 5 < LeadDays r)"

section \<open>Reading decimal text back\<close>

definition digit_val :: "char \<Rightarrow> nat" where
  "digit_val c = of_char c - 48"

definition parse_nat :: "string \<Rightarrow> nat" where
  "parse_nat s = foldl (\<lambda>a c. 10 * a + digit_val c) 0 s"

section \<open>Sample data\<close>

text \<open>
  An exact arithmetic to run the rates with, a row with chosen outcome, reminder flag and
  lead time, a frame with the fifteen columns over given rows, and a random source with a
  clock to run the generator with.
\<close>

definition exact_ops :: "real floats" where
  "exact_ops = \<lparr>fdiv = (\<lambda>a b. real_of_int a / real_of_int b),
                 fmul = (\<lambda>x k. x * real_of_int k)\<rparr>"

definition sample :: "nat \<Rightarrow> string \<Rightarrow> int \<Rightarrow> int \<Rightarrow> row" where
  "sample i outcome sms lead =
     \<lparr>PatientId = ''P-'' @ str_nat (10000 + i),
      AppointmentID = ''APT-'' @ str_nat (50000 + i),
      Gender = ''F'',
      ScheduledDay = 63929433600000000,
      AppointmentDay = 63929433600000000 + timedelta lead,
      Age = 40,
      Neighbourhood = ''MATA DA PRAIA'',
      Scholarship = 0,
      Hipertension = 0,
      Diabetes = 0,
      Alcoholism = 0,
      Handcap = 0,
      SMS_received = sms,
      No_show = outcome,
      LeadDays = lead\<rparr>"

definition cohort_of :: "row list \<Rightarrow> dataframe" where
  "cohort_of rs = \<lparr>columns = row_keys, rows = rs\<rparr>"

definition env0 :: env where
  "env0 = \<lparr>entropy = (\<lambda>k. 7 * k + 3), clock = (\<lambda>i. 63929433600000000 + int i)\<rparr>"

section \<open>Facts about frames\<close>

lemma select_filter: "map fst (filter snd (zip xs (map P xs))) = filter P xs"
  by (induction xs) simp_all

lemma rows_select_map: "rows (select_rows df (map P (rows df))) = filter P (rows df)"
  by (simp add: select_rows_def select_filter)

lemma columns_select: "columns (select_rows df bs) = columns df"
  by (simp add: select_rows_def)

lemma series_and_map: "series_and (map P xs) (map Q xs) = map (\<lambda>x. P x \<and> Q x) xs"
  by (induction xs) (simp_all add: series_and_def)

lemma series_or_map: "series_or (map P xs) (map Q xs) = map (\<lambda>x. P x \<or> Q x) xs"
  by (induction xs) (simp_all add: series_or_def)

lemma cohort_has:
  assumes "is_cohort df"
  shows "''No-show'' \<in> set (columns df)" and "''LeadDays'' \<in> set (columns df)"
    and "''SMS_received'' \<in> set (columns df)" and "''PatientId'' \<in> set (columns df)"
    and "''Neighbourhood'' \<in> set (columns df)"
  using assms by (simp_all add: is_cohort_def row_keys_def)


lemma is_cohort_cohort_of: "is_cohort (cohort_of rs)"
  by (simp add: is_cohort_def cohort_of_def)

lemma no_shows_cohort:
  "is_cohort df \<Longrightarrow>
     no_shows df = Inr (select_rows df (map (\<lambda>r. No_show r = ''Yes'') (rows df)))"
  by (simp add: no_shows_def column_def cohort_has comp_def)

lemma shows_up_cohort:
  "is_cohort df \<Longrightarrow>
     shows_up df = Inr (select_rows df (map (\<lambda>r. No_show r = ''No'') (rows df)))"
  by (simp add: shows_up_def column_def cohort_has comp_def)


text \<open>On a cohort the overall rate fails exactly when there is no row.\<close>

lemma rate_cohort:
  "is_cohort df \<Longrightarrow> rate ops df =
     (if rows df = [] then Inl ZeroDivisionError
      else Inr (fmul ops (fdiv ops (int (length (filter (\<lambda>r. No_show r = ''Yes'') (rows df))))
                                  (int (length (rows df)))) 100))"
  by (simp add: rate_def no_shows_cohort shows_up_cohort truediv_def len_def rows_select_map
      Let_def)


section \<open>Facts about the generator\<close>

lemma snd_gen_row: "snd (gen_row e i k) = k + 12"
  by (simp add: gen_row_def randint_def choice_def Let_def split_def)

text \<open>The loop appends one row per index, each row starting twelve draws after the last.\<close>

lemma load_loop_unfold:
  "load_loop e n i k data = data @ map (\<lambda>j. fst (gen_row e (i + j) (k + 12 * j))) [0..<n]"
proof (induction n arbitrary: i k data)
  case 0
  show ?case by simp
next
  case (Suc n)
  have "map (\<lambda>j. fst (gen_row e (i + j) (k + 12 * j))) [0..<Suc n]
        = fst (gen_row e i k) # map (\<lambda>j. fst (gen_row e (Suc i + j) (k + 12 + 12 * j))) [0..<n]"
    by (simp only: upt_conv_Cons [of 0 "Suc n"] map_Suc_upt [symmetric] list.map)
       (simp add: comp_def add.assoc)
  then show ?case
    using Suc.IH [of "Suc i" "k + 12" "data @ [fst (gen_row e i k)]"] snd_gen_row [of e i k]
    by (simp add: split_def Let_def del: upt_Suc)
qed

lemma rows_load_data:
  "rows (load_data e cnt) = map (\<lambda>j. fst (gen_row e j (12 * j))) [0..<nat cnt]"
  by (simp add: load_data_def DataFrame_def load_loop_unfold)

lemma randint_range:
  "low < high \<Longrightarrow> low \<le> fst (randint low high e k) \<and> fst (randint low high e k) < high"
proof -
  assume lh: "low < high"
  then have "0 < nat (high - low)" by simp
  then have "entropy e k mod nat (high - low) < nat (high - low)" by (rule mod_less_divisor)
  then have "int (entropy e k mod nat (high - low)) < high - low" using lh by linarith
  then show ?thesis by (simp add: randint_def)
qed

lemma gen_row_ids:
  "PatientId (fst (gen_row e i k)) = ''P-'' @ str_nat (10000 + i)"
  "AppointmentID (fst (gen_row e i k)) = ''APT-'' @ str_nat (50000 + i)"
  by (simp_all add: gen_row_def randint_def choice_def Let_def split_def)

lemma gen_row_days:
  "AppointmentDay (fst (gen_row e i k)) =
     ScheduledDay (fst (gen_row e i k)) + timedelta (LeadDays (fst (gen_row e i k)))"
  by (simp add: gen_row_def randint_def choice_def Let_def split_def)

lemma gen_row_lead_draw:
  "LeadDays (fst (gen_row e i k)) = fst (randint 0 15 e (Suc (Suc (Suc (Suc k)))))"
  by (simp add: gen_row_def randint_def choice_def Let_def split_def)

lemma gen_row_age_draw: "Age (fst (gen_row e i k)) = fst (randint 5 85 e (Suc (Suc k)))"
  by (simp add: gen_row_def randint_def choice_def Let_def split_def)

lemma gen_row_lead:
  "0 \<le> LeadDays (fst (gen_row e i k)) \<and> LeadDays (fst (gen_row e i k)) \<le> 14"
  using randint_range [of 0 15 e "Suc (Suc (Suc (Suc k)))"] by (simp add: gen_row_lead_draw)

lemma gen_row_age: "5 \<le> Age (fst (gen_row e i k)) \<and> Age (fst (gen_row e i k)) \<le> 84"
  using randint_range [of 5 85 e "Suc (Suc k)"] by (simp add: gen_row_age_draw)

text \<open>Decimal text determines the number: reading it back gives the number again.\<close>

lemma digit_val_digit: "d < 10 \<Longrightarrow> digit_val (digit d) = d"
proof -
  assume "d < 10"
  then have "d \<in> {0, 1, 2, 3, 4, 5, 6, 7, 8, 9}" by auto
  then show ?thesis by (auto simp: digit_def digit_val_def)
qed

lemma parse_nat_str_nat: "parse_nat (str_nat n) = n"
proof (induction n rule: str_nat.induct)
  case (1 n)
  show ?case
  proof (cases "n < 10")
    case True
    then show ?thesis by (simp add: str_nat.simps [of n] parse_nat_def digit_val_digit)
  next
    case False
    then have "parse_nat (str_nat (n div 10)) = n div 10" using 1 by simp
    then show ?thesis using False
      by (simp add: str_nat.simps [of n] parse_nat_def digit_val_digit)
  qed
qed

lemma str_nat_inj: "str_nat m = str_nat n \<Longrightarrow> m = n"
  by (metis parse_nat_str_nat)

text \<open>The first row that the sample source yields, and the identifiers of the second.\<close>

lemma gen_row0_mem: "fst (gen_row env0 0 0) \<in> set (rows (load_data env0 1))"
  by (simp add: rows_load_data)

lemma gen_row0_lead: "LeadDays (fst (gen_row env0 0 0)) = 1"
  by (simp add: gen_row_lead_draw randint_def env0_def)

lemma gen_row0_age: "Age (fst (gen_row env0 0 0)) = 22"
  by (simp add: gen_row_age_draw randint_def env0_def)

lemma map_ids:
  "map PatientId (rows (load_data e cnt)) = map (\<lambda>j. ''P-'' @ str_nat (10000 + j)) [0..<nat cnt]"
  "map AppointmentID (rows (load_data e cnt)) = map (\<lambda>j. ''APT-'' @ str_nat (50000 + j)) [0..<nat cnt]"
  by (simp_all add: rows_load_data gen_row_ids comp_def)

lemma distinct_ids: "distinct (map (\<lambda>j. pre @ str_nat (b + j)) [0..<n])"
proof -
  have "inj_on (\<lambda>j. pre @ str_nat (b + j)) (set [0..<n])"
    by (rule inj_onI) (auto dest: str_nat_inj)
  then show ?thesis by (simp add: distinct_map)
qed

lemma str_nat_10001: "str_nat 10001 = ''10001''"
  by (simp add: str_nat.simps digit_def)

lemma str_nat_50001: "str_nat 50001 = ''50001''"
  by (simp add: str_nat.simps digit_def)

text \<open>The queue, the revenue figure and counting under a permutation.\<close>

lemma high_risk_cohort:
  "is_cohort df \<Longrightarrow> high_risk df = Inr (select_rows df (map is_high_risk (rows df)))"
proof -
  have "is_high_risk = (\<lambda>r. No_show r = ''Yes'' \<and> 5 < LeadDays r)"
    by (simp add: fun_eq_iff is_high_risk_def)
  then show "is_cohort df \<Longrightarrow> ?thesis"
    by (simp add: high_risk_def column_def cohort_has series_and_map comp_def)
qed

lemma is_high_risk_sample:
  "is_high_risk (sample i outcome sms lead) = (outcome = ''Yes'' \<and> 5 < lead)"
  by (simp add: is_high_risk_def sample_def)

lemma est_loss_cohort:
  "is_cohort df \<Longrightarrow>
     est_loss df = Inr (int (length (filter (\<lambda>r. No_show r = ''Yes'') (rows df))) * 150)"
  by (simp add: est_loss_def no_shows_cohort len_def rows_select_map)

lemma count_filter_mset: "mset xs = mset ys \<Longrightarrow> length (filter P xs) = length (filter P ys)"
  by (metis mset_filter size_mset)

text \<open>
  A generated frame of positive count is a cohort. The frame of count zero is not: it has
  no columns, and the figures of the dashboard fail on it with \<open>KeyError\<close> at the first
  column they select.
\<close>

lemma is_cohort_load_data: "0 < cnt \<Longrightarrow> is_cohort (load_data e cnt)"
proof -
  assume "0 < cnt"
  then have "0 < length (rows (load_data e cnt))" by (simp add: rows_load_data)
  then show ?thesis by (auto simp: is_cohort_def load_data_def DataFrame_def)
qed




section \<open>Facts about the search\<close>

lemma re_compile_literal:
  "\<forall>c \<in> set t. c \<notin> set special_chars \<Longrightarrow> re_compile t = Some (map Literal t)"
  by (induction t) (auto simp: special_chars_def)

lemma match_here_literal:
  "match_here (map Literal t) s = prefix (map lower t) (map lower s)"
proof (induction t arbitrary: s)
  case Nil
  show ?case by simp
next
  case (Cons a t)
  then show ?case by (cases s) simp_all
qed

lemma re_search_literal:
  "re_search (map Literal t) s = sublist (map lower t) (map lower s)"
proof (induction s)
  case Nil
  show ?case by (simp add: match_here_literal)
next
  case (Cons c s)
  then show ?case by (simp add: match_here_literal sublist_Cons_right)
qed

text \<open>
  For a term without special characters, the empty term included, the search over a cohort
  gives exactly the rows that the specification's \<open>search\<close> gives.
\<close>

lemma display_df_literal:
  assumes c: "is_cohort df" and lit: "\<forall>c \<in> set t. c \<notin> set special_chars"
  shows "display_df df t = Some (Inr (df\<lparr>rows := search_spec (rows df) t\<rparr>))"
proof (cases "t = []")
  case True
  then show ?thesis by (simp add: display_df_def search_spec_def contains_ci_def)
next
  case False
  then show ?thesis
    using c
    by (simp add: display_df_def column_def cohort_has re_compile_literal [OF lit]
        series_or_map comp_def search_spec_def select_rows_def select_filter
        re_search_literal contains_ci_def)
qed

lemma str_nat_10000: "str_nat 10000 = ''10000''"
  by (simp add: str_nat.simps digit_def)

lemma lower_ids:
  "map lower ''P-10000'' = ''p-10000''"
  "map lower ''MATA DA PRAIA'' = ''mata da praia''"
  by code_simp+

section \<open>The claims\<close>




text \<open>
  C2. For every positive count, \<open>load_data\<close> returns a frame of exactly that many rows.
\<close>

theorem load_data_length: "0 < cnt \<Longrightarrow> len (load_data e cnt) = cnt"
  by (simp add: len_def rows_load_data)

theorem load_data_length_witness: "(0::int) < 3 \<and> len (load_data env0 3) = 3"
  using load_data_length [of 3 env0] by simp

text \<open>
  C3. Every row of a generated frame has its appointment day exactly \<open>LeadDays\<close> days
  after its scheduled day, and \<open>LeadDays\<close> between 0 and 14.
\<close>

theorem load_data_days:
  "\<forall>r \<in> set (rows (load_data e cnt)).
     AppointmentDay r = ScheduledDay r + timedelta (LeadDays r) \<and>
     0 \<le> LeadDays r \<and> LeadDays r \<le> 14"
  by (auto simp: rows_load_data gen_row_days gen_row_lead)

theorem load_data_days_witness:
  "fst (gen_row env0 0 0) \<in> set (rows (load_data env0 1)) \<and>
   LeadDays (fst (gen_row env0 0 0)) = 1 \<and>
   AppointmentDay (fst (gen_row env0 0 0)) = ScheduledDay (fst (gen_row env0 0 0)) + timedelta 1"
  using load_data_days [of env0 1] gen_row0_mem gen_row0_lead by auto

text \<open>
  C4. In a generated frame the patient identifiers are pairwise different, so are the
  appointment identifiers, and the row at index \<open>i\<close> carries \<open>P-\<close> followed by
  \<open>10000 + i\<close> and \<open>APT-\<close> followed by \<open>50000 + i\<close>, in decimal.
\<close>

theorem load_data_identifiers:
  "distinct (map PatientId (rows (load_data e cnt))) \<and>
   distinct (map AppointmentID (rows (load_data e cnt))) \<and>
   (\<forall>i < nat cnt.
      PatientId (rows (load_data e cnt) ! i) = ''P-'' @ str_nat (10000 + i) \<and>
      AppointmentID (rows (load_data e cnt) ! i) = ''APT-'' @ str_nat (50000 + i))"
proof -
  have "distinct (map PatientId (rows (load_data e cnt)))"
    unfolding map_ids by (rule distinct_ids)
  moreover have "distinct (map AppointmentID (rows (load_data e cnt)))"
    unfolding map_ids by (rule distinct_ids)
  moreover have "\<forall>i < nat cnt.
      PatientId (rows (load_data e cnt) ! i) = ''P-'' @ str_nat (10000 + i) \<and>
      AppointmentID (rows (load_data e cnt) ! i) = ''APT-'' @ str_nat (50000 + i)"
    by (simp add: rows_load_data gen_row_ids)
  ultimately show ?thesis by blast
qed


theorem load_data_identifiers_witness:
  "(1::nat) < nat 2 \<and>
   distinct (map PatientId (rows (load_data env0 2))) \<and>
   distinct (map AppointmentID (rows (load_data env0 2))) \<and>
   PatientId (rows (load_data env0 2) ! 1) = ''P-10001'' \<and>
   AppointmentID (rows (load_data env0 2) ! 1) = ''APT-50001''"
proof -
  have one: "(1::nat) < nat 2" by simp
  have "(10000::nat) + 1 = 10001" and "(50000::nat) + 1 = 50001" by simp_all
  then show ?thesis
    using load_data_identifiers [of env0 2] one str_nat_10001 str_nat_50001 by auto
qed

text \<open>
  C10. Every generated row has an age from 5 to 84; the age 85 never comes out, the draw
  \<open>randint(5, 85)\<close> excluding its upper end.
\<close>

theorem load_data_age:
  "\<forall>r \<in> set (rows (load_data e cnt)). 5 \<le> Age r \<and> Age r \<le> 84 \<and> Age r \<noteq> 85"
proof
  fix r assume "r \<in> set (rows (load_data e cnt))"
  then obtain j where "r = fst (gen_row e j (12 * j))"
    by (auto simp: rows_load_data)
  then show "5 \<le> Age r \<and> Age r \<le> 84 \<and> Age r \<noteq> 85"
    using gen_row_age [of e j "12 * j"] by simp
qed

theorem load_data_age_witness:
  "fst (gen_row env0 0 0) \<in> set (rows (load_data env0 1)) \<and> Age (fst (gen_row env0 0 0)) = 22 \<and>
   (5::int) \<le> 22 \<and> (22::int) \<le> 84"
  using load_data_age [of env0 1] gen_row0_mem gen_row0_age by auto

text \<open>
  C8, as the code has it. For a count of zero or less the loop does not run and
  \<open>load_data\<close> returns the frame built from the empty list, without rows and without
  columns. The source has no check of its argument and raises nothing.
\<close>

theorem load_data_nonpositive: "cnt \<le> 0 \<Longrightarrow> load_data e cnt = \<lparr>columns = [], rows = []\<rparr>"
  by (simp add: load_data_def DataFrame_def)

theorem load_data_nonpositive_witness:
  "(- 1 :: int) \<le> 0 \<and> load_data env0 (- 1) = \<lparr>columns = [], rows = []\<rparr>"
  using load_data_nonpositive [of "- 1" env0] by simp

text \<open>
  C8 as written, that such a count is rejected and no empty cohort returned, fails at the
  counts 0 and -3: both return the empty frame.
\<close>

theorem load_data_zero_returns:
  "load_data env0 0 = \<lparr>columns = [], rows = []\<rparr> \<and>
   load_data env0 (- 3) = \<lparr>columns = [], rows = []\<rparr>"
  by (simp add: load_data_def DataFrame_def)

text \<open>
  C5. On every cohort the high-risk queue is the frame of exactly the rows with
  \<open>No-show = Yes\<close> and more than 5 lead days: it keeps the columns, its rows are the
  filter of the input rows, hence in the input's order and all taken from the input.
\<close>

theorem high_risk_stable_filter:
  "is_cohort df \<Longrightarrow>
     \<exists>q. high_risk df = Inr q \<and> columns q = columns df \<and>
         rows q = filter is_high_risk (rows df) \<and>
         subseq (rows q) (rows df) \<and> set (rows q) \<subseteq> set (rows df)"
  by (simp add: high_risk_cohort rows_select_map columns_select)

theorem high_risk_stable_filter_witness:
  "is_cohort (cohort_of [sample 0 ''Yes'' 1 6, sample 1 ''No'' 0 9, sample 2 ''Yes'' 0 5,
                         sample 3 ''Yes'' 0 14, sample 4 ''No'' 1 0]) \<and>
   high_risk (cohort_of [sample 0 ''Yes'' 1 6, sample 1 ''No'' 0 9, sample 2 ''Yes'' 0 5,
                         sample 3 ''Yes'' 0 14, sample 4 ''No'' 1 0])
     = Inr (cohort_of [sample 0 ''Yes'' 1 6, sample 3 ''Yes'' 0 14])"
proof -
  let ?df = "cohort_of [sample 0 ''Yes'' 1 6, sample 1 ''No'' 0 9, sample 2 ''Yes'' 0 5,
                        sample 3 ''Yes'' 0 14, sample 4 ''No'' 1 0]"
  have c: "is_cohort ?df" by (rule is_cohort_cohort_of)
  from high_risk_stable_filter [OF c] obtain q
    where q: "high_risk ?df = Inr q" "columns q = columns ?df"
      "rows q = filter is_high_risk (rows ?df)"
    by blast
  have "rows q = [sample 0 ''Yes'' 1 6, sample 3 ''Yes'' 0 14]"
    using q(3) by (simp add: cohort_of_def is_high_risk_sample)
  moreover have "columns q = row_keys"
    using q(2) by (simp add: cohort_of_def)
  ultimately have "q = cohort_of [sample 0 ''Yes'' 1 6, sample 3 ''Yes'' 0 14]"
    by (cases q) (simp add: cohort_of_def)
  then show ?thesis using c q(1) by simp
qed

text \<open>
  C7, as the code has it. The unit value is the constant 150 of line 113, not an argument:
  on every cohort the estimated loss is the number of no-show rows times 150. With four
  no-show rows it is 600.
\<close>

theorem est_loss_unit_150:
  "is_cohort df \<Longrightarrow> est_loss df = Inr (revenueLoss_spec (rows df) 150)"
  by (simp add: est_loss_cohort revenueLoss_spec_def)

theorem est_loss_unit_150_witness:
  "is_cohort (cohort_of [sample 0 ''Yes'' 1 6, sample 1 ''Yes'' 0 9, sample 2 ''No'' 0 5,
                         sample 3 ''Yes'' 0 14, sample 4 ''Yes'' 1 0]) \<and>
   est_loss (cohort_of [sample 0 ''Yes'' 1 6, sample 1 ''Yes'' 0 9, sample 2 ''No'' 0 5,
                        sample 3 ''Yes'' 0 14, sample 4 ''Yes'' 1 0]) = Inr 600"
  using est_loss_unit_150
          [of "cohort_of [sample 0 ''Yes'' 1 6, sample 1 ''Yes'' 0 9, sample 2 ''No'' 0 5,
                          sample 3 ''Yes'' 0 14, sample 4 ''Yes'' 1 0]"]
  by (simp add: is_cohort_cohort_of revenueLoss_spec_def) (simp add: cohort_of_def sample_def)

text \<open>
  C7 as written, for every unit value, fails at the unit value 100: for a cohort with one
  no-show row the specification's product is 100 and the code's figure is 150.
\<close>

theorem est_loss_ignores_unit:
  "(0::int) \<le> 100 \<and>
   est_loss (cohort_of [sample 0 ''Yes'' 1 6]) = Inr 150 \<and>
   revenueLoss_spec (rows (cohort_of [sample 0 ''Yes'' 1 6])) 100 = 100"
  by (simp add: est_loss_cohort is_cohort_cohort_of revenueLoss_spec_def)
     (simp add: cohort_of_def sample_def)

text \<open>
  C9. For a cohort with at least one row and any frame with the same columns whose rows are
  a permutation of the cohort's, the overall no-show rate is the same, and it is a value,
  not an error. This holds whatever the float arithmetic is.
\<close>

theorem rate_permutation_invariant:
  assumes c: "is_cohort df" and ne: "rows df \<noteq> []"
    and cols: "columns df' = columns df" and perm: "mset (rows df') = mset (rows df)"
  shows "rate ops df' = rate ops df \<and> (\<exists>x. rate ops df = Inr x)"
proof -
  have c': "is_cohort df'" using c cols by (simp add: is_cohort_def)
  have l: "length (rows df') = length (rows df)" using perm by (metis size_mset)
  then have ne': "rows df' \<noteq> []" using ne by auto
  have "length (filter (\<lambda>r. No_show r = ''Yes'') (rows df'))
        = length (filter (\<lambda>r. No_show r = ''Yes'') (rows df))"
    using perm by (rule count_filter_mset)
  then show ?thesis
    using ne ne' l by (simp add: rate_cohort c c')
qed

theorem rate_permutation_invariant_witness:
  "is_cohort (cohort_of [sample 0 ''Yes'' 1 6, sample 1 ''No'' 0 9, sample 2 ''No'' 0 5, sample 3 ''No'' 1 2]) \<and>
   rows (cohort_of [sample 0 ''Yes'' 1 6, sample 1 ''No'' 0 9, sample 2 ''No'' 0 5, sample 3 ''No'' 1 2]) \<noteq> [] \<and>
   mset (rows (cohort_of [sample 3 ''No'' 1 2, sample 1 ''No'' 0 9, sample 0 ''Yes'' 1 6, sample 2 ''No'' 0 5]))
     = mset (rows (cohort_of [sample 0 ''Yes'' 1 6, sample 1 ''No'' 0 9, sample 2 ''No'' 0 5, sample 3 ''No'' 1 2])) \<and>
   rate exact_ops (cohort_of [sample 3 ''No'' 1 2, sample 1 ''No'' 0 9, sample 0 ''Yes'' 1 6, sample 2 ''No'' 0 5])
     = rate exact_ops (cohort_of [sample 0 ''Yes'' 1 6, sample 1 ''No'' 0 9, sample 2 ''No'' 0 5, sample 3 ''No'' 1 2]) \<and>
   rate exact_ops (cohort_of [sample 0 ''Yes'' 1 6, sample 1 ''No'' 0 9, sample 2 ''No'' 0 5, sample 3 ''No'' 1 2])
     = Inr 25"
proof -
  let ?a = "[sample 0 ''Yes'' 1 6, sample 1 ''No'' 0 9, sample 2 ''No'' 0 5, sample 3 ''No'' 1 2]"
  let ?b = "[sample 3 ''No'' 1 2, sample 1 ''No'' 0 9, sample 0 ''Yes'' 1 6, sample 2 ''No'' 0 5]"
  have c: "is_cohort (cohort_of ?a)" by (rule is_cohort_cohort_of)
  have ne: "rows (cohort_of ?a) \<noteq> []" by (simp add: cohort_of_def)
  have cols: "columns (cohort_of ?b) = columns (cohort_of ?a)" by (simp add: cohort_of_def)
  have perm: "mset (rows (cohort_of ?b)) = mset (rows (cohort_of ?a))"
    by (simp add: cohort_of_def add_mset_commute)
  have v: "rate exact_ops (cohort_of ?a) = Inr 25"
    by (simp add: rate_cohort is_cohort_cohort_of) (simp add: cohort_of_def sample_def exact_ops_def)
  show ?thesis
    using rate_permutation_invariant [OF c ne cols perm, of exact_ops] c ne perm v by simp
qed

text \<open>
  C6 at the search term of one dot. The cohort has one row, patient \<open>P-10000\<close> of
  \<open>MATA DA PRAIA\<close>; neither text contains a dot, so the specification's \<open>search\<close> selects
  no row. The code compiles the term as a regular expression, in which the dot matches any
  character, and returns the whole cohort.
\<close>

theorem display_df_dot_selects_all:
  "display_df (cohort_of [sample 0 ''No'' 1 2]) ''.''
     = Some (Inr (cohort_of [sample 0 ''No'' 1 2])) \<and>
   search_spec (rows (cohort_of [sample 0 ''No'' 1 2])) ''.'' = []"
proof -
  have id: "PatientId (sample 0 ''No'' 1 2) = ''P-10000''"
    and nb: "Neighbourhood (sample 0 ''No'' 1 2) = ''MATA DA PRAIA''"
    by (simp_all add: sample_def str_nat_10000)
  have "display_df (cohort_of [sample 0 ''No'' 1 2]) ''.''
        = Some (Inr (cohort_of [sample 0 ''No'' 1 2]))"
    by (simp add: display_df_def column_def cohort_of_def row_keys_def id nb series_or_def
        select_rows_def)
  moreover have "\<not> contains_ci ''.'' ''P-10000''" "\<not> contains_ci ''.'' ''MATA DA PRAIA''"
    by (simp_all add: contains_ci_def lower_ids sublist_Cons_right del: list.map)
       (simp_all add: lower_def)
  then have "search_spec (rows (cohort_of [sample 0 ''No'' 1 2])) ''.'' = []"
    by (simp add: search_spec_def cohort_of_def id nb)
  ultimately show ?thesis by simp
qed

end
